theory Spec2Isabelle
  imports Main
begin

section \<open>Python strings\<close>

text \<open>
  A Python \<open>str\<close> is modelled as a \<open>string\<close> whose characters are the code points
  0 to 255 (Latin-1). On that range \<open>str.isspace\<close> holds for the code points
  9 to 13, 28 to 31, 32, 133 and 160, and \<open>str.lower\<close> adds 32 to the code points of
  \<open>A\<close> to \<open>Z\<close> and of 192 to 222 except 215.
\<close>

definition isspace :: "char \<Rightarrow> bool" where
  "isspace c = ((of_char c :: nat) \<in> {9, 10, 11, 12, 13, 28, 29, 30, 31, 32, 133, 160})"

definition strip :: "string \<Rightarrow> string" where
  "strip s = rev (dropWhile isspace (rev (dropWhile isspace s)))"

definition lower_char :: "char \<Rightarrow> char" where
  "lower_char c =
     (let n = (of_char c :: nat)
      in if 65 \<le> n \<and> n \<le> 90 then char_of (n + 32)
         else if n = 215 then c
         else if 192 \<le> n \<and> n \<le> 222 then char_of (n + 32)
         else c)"

definition lower :: "string \<Rightarrow> string" where
  "lower s = map lower_char s"

text \<open>\<open>json.dumps\<close> of a \<open>str\<close> (with the default \<open>ensure_ascii=True\<close>).\<close>

definition hexdigit :: "nat \<Rightarrow> char" where
  "hexdigit n = ''0123456789abcdef'' ! (n mod 16)"

definition json_escape :: "char \<Rightarrow> string" where
  "json_escape c =
     (let n = (of_char c :: nat)
      in if n = 34 then [CHR 0x5C, CHR 0x22]
         else if n = 92 then [CHR 0x5C, CHR 0x5C]
         else if n = 10 then [CHR 0x5C, CHR ''n'']
         else if n = 13 then [CHR 0x5C, CHR ''r'']
         else if n = 9 then [CHR 0x5C, CHR ''t'']
         else if n = 8 then [CHR 0x5C, CHR ''b'']
         else if n = 12 then [CHR 0x5C, CHR ''f'']
         else if 32 \<le> n \<and> n \<le> 126 then [c]
         else [CHR 0x5C, CHR ''u'', CHR ''0'', CHR ''0'', hexdigit (n div 16), hexdigit n])"

definition json_dumps :: "string \<Rightarrow> string" where
  "json_dumps s = [CHR 0x22] @ concat (map json_escape s) @ [CHR 0x22]"

section \<open>Exceptions\<close>

text \<open>
  The exceptions of the program, all subclasses of \<open>Exception\<close>: a missing dictionary
  key, an index out of range, and whatever a \<open>boto3\<close> call raises.
\<close>

datatype exn = KeyError string | IndexError | ClientError string

section \<open>The compute-description API\<close>

record tag =
  Key :: string
  Value :: string

text \<open>
  One element of \<open>Reservations[..]['Instances']\<close>. \<open>State_Name\<close> is
  \<open>['State']['Name']\<close>; the keys \<open>Tags\<close> and \<open>PublicIpAddress\<close> may be absent.
\<close>

record ec2_instance =
  State_Name :: string
  Tags :: "tag list option"
  PublicIpAddress :: "string option"

record reservation =
  Instances :: "ec2_instance list"

section \<open>The DNS zone API\<close>

text \<open>
  A resource record set, as \<open>list_resource_record_sets\<close> returns it and as a change
  carries it. \<open>ResourceRecords\<close> is the list of the \<open>Value\<close>s; an alias record set has
  neither \<open>TTL\<close> nor \<open>ResourceRecords\<close>.
\<close>

record resource_record_set =
  Name :: string
  ResourceRecords :: "string list option"
  TTL :: "int option"
  Type :: string

record change =
  Action :: string
  ResourceRecordSet :: resource_record_set

record change_batch =
  Comment :: "string option"
  Changes :: "change list"

text \<open>
  The calls issued against the zone API, in order, whether or not they raise:
  \<open>ListCall HostedZoneId StartRecordName StartRecordType MaxItems\<close> and
  \<open>ChangeCall HostedZoneId ChangeBatch\<close>.
\<close>

datatype r53_call =
    ListCall "string option" string string string
  | ChangeCall "string option" change_batch

text \<open>
  The environment of one invocation: what creating the two clients and each API call
  return or raise. \<open>describe_instances\<close> returns the \<open>Reservations\<close>,
  \<open>list_resource_record_sets\<close> the \<open>ResourceRecordSets\<close>; the response of
  \<open>change_resource_record_sets\<close> is only printed.
\<close>

record env =
  new_clients :: "exn + unit"
  describe_instances :: "string list \<Rightarrow> exn + reservation list"
  list_resource_record_sets ::
    "string option \<Rightarrow> string \<Rightarrow> string \<Rightarrow> string \<Rightarrow> exn + resource_record_set list"
  change_resource_record_sets :: "string option \<Rightarrow> change_batch \<Rightarrow> exn + unit"

text \<open>
  \<open>try: ... except Exception as e: print(...); return False\<close>. A body returns its value
  or the exception it raised, and the calls it issued until then.
\<close>

fun try_except :: "(exn + bool) \<times> r53_call list \<Rightarrow> bool \<times> r53_call list" where
  "try_except (Inr b, calls) = (b, calls)"
| "try_except (Inl e, calls) = (False, calls)"

text \<open>
  The generator expression under \<open>next(..., "")\<close> in \<open>set_dns\<close>: the stripped and
  lower-cased value of the first tag whose stripped and lower-cased key is \<open>dns\<close>.
\<close>

fun next_dns_tag :: "tag list \<Rightarrow> string" where
  "next_dns_tag [] = ''''"
| "next_dns_tag (t # ts) =
     (if lower (strip (Key t)) = ''dns'' then lower (strip (Value t)) else next_dns_tag ts)"

section \<open>\<open>auto_dns_mapping/app.py\<close>\<close>

text \<open>The module's globals, read with \<open>os.environ[...]\<close> when it is loaded.\<close>

record config =
  DOMAIN_NAME :: string
  ROUTE53_ZONE_ID :: string
  AWS_PRIMARY_REGION :: string

record IpToDNSMapper =
  instance_id :: string
  ipv4 :: string
  dns_str :: string
  dns_prefix :: string

definition init :: "string \<Rightarrow> IpToDNSMapper" where
  "init iid = \<lparr>instance_id = iid, ipv4 = '''', dns_str = '''', dns_prefix = ''autodns-''\<rparr>"

text \<open>The record name \<open>f'{self._dns_prefix}{self._dns_str}.{DOMAIN_NAME}'\<close>.\<close>

definition record_name :: "config \<Rightarrow> IpToDNSMapper \<Rightarrow> string" where
  "record_name cfg self = dns_prefix self @ dns_str self @ ''.'' @ DOMAIN_NAME cfg"

definition delete_route53_record_set_body ::
  "env \<Rightarrow> config \<Rightarrow> IpToDNSMapper \<Rightarrow> (exn + bool) \<times> r53_call list" where
  "delete_route53_record_set_body e cfg self =
     (let zone = Some (ROUTE53_ZONE_ID cfg);
          target = record_name cfg self;
          q = ListCall zone target ''A'' ''1''
      in case list_resource_record_sets e zone target ''A'' ''1'' of
           Inl x \<Rightarrow> (Inl x, [q])
         | Inr [] \<Rightarrow> (Inl IndexError, [q])
         | Inr (record_desc # _) \<Rightarrow>
             if Name record_desc \<noteq> target @ ''.'' then (Inr False, [q])
             else (case ResourceRecords record_desc of
                     None \<Rightarrow> (Inl (KeyError ''ResourceRecords''), [q])
                   | Some [] \<Rightarrow> (Inl IndexError, [q])
                   | Some (v # _) \<Rightarrow>
                      (case TTL record_desc of
                         None \<Rightarrow> (Inl (KeyError ''TTL''), [q])
                       | Some ttl \<Rightarrow>
                          (let batch = \<lparr>Comment = None, Changes = [\<lparr>Action = ''DELETE'',
                                 ResourceRecordSet = \<lparr>Name = Name record_desc,
                                   ResourceRecords = Some [v], TTL = Some ttl,
                                   Type = Type record_desc\<rparr>\<rparr>]\<rparr>
                           in case change_resource_record_sets e zone batch of
                                Inl x \<Rightarrow> (Inl x, [q, ChangeCall zone batch])
                              | Inr delete_res \<Rightarrow> (Inr True, [q, ChangeCall zone batch])))))"

definition delete_route53_record_set ::
  "env \<Rightarrow> config \<Rightarrow> IpToDNSMapper \<Rightarrow> bool \<times> r53_call list" where
  "delete_route53_record_set e cfg self = try_except (delete_route53_record_set_body e cfg self)"

definition create_route53_record_set_body ::
  "env \<Rightarrow> config \<Rightarrow> IpToDNSMapper \<Rightarrow> (exn + bool) \<times> r53_call list" where
  "create_route53_record_set_body e cfg self =
     (let zone = Some (ROUTE53_ZONE_ID cfg);
          batch = \<lparr>Comment = Some (''DNS attached to instance '' @ instance_id self),
                   Changes = [\<lparr>Action = ''UPSERT'',
                     ResourceRecordSet = \<lparr>Name = record_name cfg self,
                       ResourceRecords = Some [ipv4 self], TTL = Some 300, Type = ''A''\<rparr>\<rparr>]\<rparr>
      in case change_resource_record_sets e zone batch of
           Inl x \<Rightarrow> (Inl x, [ChangeCall zone batch])
         | Inr response \<Rightarrow> (Inr True, [ChangeCall zone batch]))"

definition create_route53_record_set ::
  "env \<Rightarrow> config \<Rightarrow> IpToDNSMapper \<Rightarrow> bool \<times> r53_call list" where
  "create_route53_record_set e cfg self = try_except (create_route53_record_set_body e cfg self)"

text \<open>A method that returns (it raises nothing), called from inside a \<open>try\<close> body.\<close>

definition returned :: "bool \<times> r53_call list \<Rightarrow> (exn + bool) \<times> r53_call list" where
  "returned r = (Inr (fst r), snd r)"

definition set_dns_body ::
  "env \<Rightarrow> config \<Rightarrow> IpToDNSMapper \<Rightarrow> (exn + bool) \<times> r53_call list" where
  "set_dns_body e cfg self =
     (case describe_instances e [instance_id self] of
        Inl x \<Rightarrow> (Inl x, [])
      | Inr [] \<Rightarrow> (Inl IndexError, [])
      | Inr (r # _) \<Rightarrow>
         (case Instances r of
            [] \<Rightarrow> (Inl IndexError, [])
          | ec2_described # _ \<Rightarrow>
             (let instance_state = State_Name ec2_described
              in case Tags ec2_described of
                   None \<Rightarrow> (Inl (KeyError ''Tags''), [])
                 | Some tags \<Rightarrow>
                    (let self1 = self\<lparr>dns_str := next_dns_tag tags\<rparr>
                     in if dns_str self1 = '''' then (Inr False, [])
                        else if instance_state = ''terminated''
                        then returned (delete_route53_record_set e cfg self1)
                        else
                          (let self2 =
                             (if instance_state = ''running''
                              then self1\<lparr>ipv4 := (case PublicIpAddress ec2_described of
                                                      None \<Rightarrow> '''' | Some a \<Rightarrow> a)\<rparr>
                              else if instance_state = ''stopped''
                              then self1\<lparr>ipv4 := ''127.0.0.1''\<rparr>
                              else self1)
                           in returned (create_route53_record_set e cfg self2))))))"

definition set_dns :: "env \<Rightarrow> config \<Rightarrow> IpToDNSMapper \<Rightarrow> bool \<times> r53_call list" where
  "set_dns e cfg self = try_except (set_dns_body e cfg self)"

text \<open>
  The handler's result. The event is a dictionary of dictionaries of strings; a missing
  key raises \<open>KeyError\<close>, and nothing in the handler catches it.
\<close>

record response =
  statusCode :: int
  body :: string

type_synonym event = "string \<rightharpoonup> (string \<rightharpoonup> string)"

definition respond :: "bool \<Rightarrow> response" where
  "respond success =
     \<lparr>statusCode = (if success then 200 else 500),
      body = json_dumps (if success then ''Function executed'' else ''Function failed'')\<rparr>"

definition lambda_handler ::
  "env \<Rightarrow> config \<Rightarrow> event \<Rightarrow> (exn + response) \<times> r53_call list" where
  "lambda_handler e cfg ev =
     (case ev ''detail'' of
        None \<Rightarrow> (Inl (KeyError ''detail''), [])
      | Some detail \<Rightarrow>
         (case detail ''instance-id'' of
            None \<Rightarrow> (Inl (KeyError ''instance-id''), [])
          | Some iid \<Rightarrow>
             (case new_clients e of
                Inl x \<Rightarrow> (Inl x, [])
              | Inr _ \<Rightarrow>
                 (let r = set_dns e cfg (init iid)
                  in (Inr (respond (fst r)), snd r)))))"

section \<open>\<open>hello_world/app.py\<close>\<close>

text \<open>
  The module's globals, read with \<open>os.environ.get(...)\<close>: \<open>None\<close> when the variable
  is not set. An f-string formats \<open>None\<close> as the text \<open>None\<close>.
\<close>

record hw_config =
  hw_DOMAIN_NAME :: "string option"
  hw_ROUTE53_ZONE_ID :: "string option"

fun format_str :: "string option \<Rightarrow> string" where
  "format_str None = ''None''"
| "format_str (Some s) = s"

record hw_IpToDNSMapper =
  hw_instance_id :: string
  hw_ipv4 :: string
  hw_dns_str :: string

definition hw_init :: "string \<Rightarrow> hw_IpToDNSMapper" where
  "hw_init iid = \<lparr>hw_instance_id = iid, hw_ipv4 = '''', hw_dns_str = ''''\<rparr>"

text \<open>The record name \<open>f'{self._dns_str}.{DOMAIN_NAME}'\<close>.\<close>

definition hw_record_name :: "hw_config \<Rightarrow> hw_IpToDNSMapper \<Rightarrow> string" where
  "hw_record_name cfg self = hw_dns_str self @ ''.'' @ format_str (hw_DOMAIN_NAME cfg)"

definition hw_delete_route53_record_set_body ::
  "env \<Rightarrow> hw_config \<Rightarrow> hw_IpToDNSMapper \<Rightarrow> (exn + bool) \<times> r53_call list" where
  "hw_delete_route53_record_set_body e cfg self =
     (let zone = hw_ROUTE53_ZONE_ID cfg;
          target = hw_record_name cfg self;
          q = ListCall zone target ''A'' ''1''
      in case list_resource_record_sets e zone target ''A'' ''1'' of
           Inl x \<Rightarrow> (Inl x, [q])
         | Inr [] \<Rightarrow> (Inl IndexError, [q])
         | Inr (record_desc # _) \<Rightarrow>
             if Name record_desc \<noteq> target @ ''.'' then (Inr False, [q])
             else (case ResourceRecords record_desc of
                     None \<Rightarrow> (Inl (KeyError ''ResourceRecords''), [q])
                   | Some [] \<Rightarrow> (Inl IndexError, [q])
                   | Some (v # _) \<Rightarrow>
                      (case TTL record_desc of
                         None \<Rightarrow> (Inl (KeyError ''TTL''), [q])
                       | Some ttl \<Rightarrow>
                          (let batch = \<lparr>Comment = None, Changes = [\<lparr>Action = ''DELETE'',
                                 ResourceRecordSet = \<lparr>Name = Name record_desc,
                                   ResourceRecords = Some [v], TTL = Some ttl,
                                   Type = Type record_desc\<rparr>\<rparr>]\<rparr>
                           in case change_resource_record_sets e zone batch of
                                Inl x \<Rightarrow> (Inl x, [q, ChangeCall zone batch])
                              | Inr delete_res \<Rightarrow> (Inr True, [q, ChangeCall zone batch])))))"

definition hw_delete_route53_record_set ::
  "env \<Rightarrow> hw_config \<Rightarrow> hw_IpToDNSMapper \<Rightarrow> bool \<times> r53_call list" where
  "hw_delete_route53_record_set e cfg self =
     try_except (hw_delete_route53_record_set_body e cfg self)"

definition hw_create_route53_record_set_body ::
  "env \<Rightarrow> hw_config \<Rightarrow> hw_IpToDNSMapper \<Rightarrow> (exn + bool) \<times> r53_call list" where
  "hw_create_route53_record_set_body e cfg self =
     (let zone = hw_ROUTE53_ZONE_ID cfg;
          batch = \<lparr>Comment = Some (''DNS attached to instance '' @ hw_instance_id self),
                   Changes = [\<lparr>Action = ''UPSERT'',
                     ResourceRecordSet = \<lparr>Name = hw_record_name cfg self,
                       ResourceRecords = Some [hw_ipv4 self], TTL = Some 300, Type = ''A''\<rparr>\<rparr>]\<rparr>
      in case change_resource_record_sets e zone batch of
           Inl x \<Rightarrow> (Inl x, [ChangeCall zone batch])
         | Inr response \<Rightarrow> (Inr True, [ChangeCall zone batch]))"

definition hw_create_route53_record_set ::
  "env \<Rightarrow> hw_config \<Rightarrow> hw_IpToDNSMapper \<Rightarrow> bool \<times> r53_call list" where
  "hw_create_route53_record_set e cfg self =
     try_except (hw_create_route53_record_set_body e cfg self)"

text \<open>\<open>ec2_described.get('Tags', [])\<close>\<close>

fun get_Tags :: "ec2_instance \<Rightarrow> tag list" where
  "get_Tags i = (case Tags i of None \<Rightarrow> [] | Some tags \<Rightarrow> tags)"

definition hw_set_dns_body ::
  "env \<Rightarrow> hw_config \<Rightarrow> hw_IpToDNSMapper \<Rightarrow> (exn + bool) \<times> r53_call list" where
  "hw_set_dns_body e cfg self =
     (case describe_instances e [hw_instance_id self] of
        Inl x \<Rightarrow> (Inl x, [])
      | Inr [] \<Rightarrow> (Inl IndexError, [])
      | Inr (r # _) \<Rightarrow>
         (case Instances r of
            [] \<Rightarrow> (Inl IndexError, [])
          | ec2_described # _ \<Rightarrow>
             (let instance_state = State_Name ec2_described;
                  self1 = self\<lparr>hw_dns_str := next_dns_tag (get_Tags ec2_described)\<rparr>
              in if instance_state = ''terminated''
                 then returned (hw_delete_route53_record_set e cfg self1)
                 else
                   (let self2 =
                      (if instance_state = ''running''
                       then self1\<lparr>hw_ipv4 := (case PublicIpAddress ec2_described of
                                                  None \<Rightarrow> '''' | Some a \<Rightarrow> a)\<rparr>
                       else if instance_state = ''stopped''
                       then self1\<lparr>hw_ipv4 := ''127.0.0.1''\<rparr>
                       else self1)
                    in returned (hw_create_route53_record_set e cfg self2)))))"

definition hw_set_dns :: "env \<Rightarrow> hw_config \<Rightarrow> hw_IpToDNSMapper \<Rightarrow> bool \<times> r53_call list" where
  "hw_set_dns e cfg self = try_except (hw_set_dns_body e cfg self)"

definition hw_lambda_handler ::
  "env \<Rightarrow> hw_config \<Rightarrow> event \<Rightarrow> (exn + response) \<times> r53_call list" where
  "hw_lambda_handler e cfg ev =
     (case ev ''detail'' of
        None \<Rightarrow> (Inl (KeyError ''detail''), [])
      | Some detail \<Rightarrow>
         (case detail ''instance-id'' of
            None \<Rightarrow> (Inl (KeyError ''instance-id''), [])
          | Some iid \<Rightarrow>
             (case new_clients e of
                Inl x \<Rightarrow> (Inl x, [])
              | Inr _ \<Rightarrow>
                 (let r = hw_set_dns e cfg (hw_init iid)
                  in (Inr (respond (fst r)), snd r)))))"

section \<open>Describing the calls\<close>

text \<open>
  The change batch of an upsert as the specification words it: a comment naming the
  instance, and a single \<open>UPSERT\<close> change of type \<open>A\<close>, TTL 300, with one resource value.
\<close>

definition upsert_batch :: "string \<Rightarrow> string \<Rightarrow> string \<Rightarrow> change_batch" where
  "upsert_batch iid name addr =
     \<lparr>Comment = Some (''DNS attached to instance '' @ iid),
      Changes = [\<lparr>Action = ''UPSERT'',
        ResourceRecordSet =
          \<lparr>Name = name, ResourceRecords = Some [addr], TTL = Some 300, Type = ''A''\<rparr>\<rparr>]\<rparr>"

text \<open>
  A change batch holding a single \<open>DELETE\<close> change for the name and type of the record
  set \<open>rd\<close>, with the resource values \<open>vs\<close> and the TTL \<open>ttl\<close>.
\<close>

definition delete_batch :: "resource_record_set \<Rightarrow> string list \<Rightarrow> int \<Rightarrow> change_batch" where
  "delete_batch rd vs ttl =
     \<lparr>Comment = None,
      Changes = [\<lparr>Action = ''DELETE'',
        ResourceRecordSet =
          \<lparr>Name = Name rd, ResourceRecords = Some vs, TTL = Some ttl, Type = Type rd\<rparr>\<rparr>]\<rparr>"

text \<open>The mutating calls of a log: for each \<open>ChangeCall\<close>, in order, the actions of its changes.\<close>

fun mutations :: "r53_call list \<Rightarrow> string list list" where
  "mutations [] = []"
| "mutations (ChangeCall z b # cs) = map Action (Changes b) # mutations cs"
| "mutations (ListCall z n t m # cs) = mutations cs"

text \<open>
  The zone query's result lets the deletion go ahead: it holds a first record set whose
  name is the target name followed by a dot, and which has a resource value and a TTL.
\<close>

definition deletable :: "exn + resource_record_set list \<Rightarrow> string \<Rightarrow> bool" where
  "deletable res target =
     (case res of
        Inr (rd # _) \<Rightarrow>
          Name rd = target @ ''.''
          \<and> (case ResourceRecords rd of Some (v # _) \<Rightarrow> True | _ \<Rightarrow> False)
          \<and> (case TTL rd of Some ttl \<Rightarrow> True | None \<Rightarrow> False)
      | _ \<Rightarrow> False)"

section \<open>Example inputs\<close>

text \<open>
  An environment in which the instance lookup returns one reservation holding the one
  instance \<open>i\<close>, the zone query returns \<open>rs\<close>, and every change is accepted.
\<close>

definition example_env :: "ec2_instance \<Rightarrow> resource_record_set list \<Rightarrow> env" where
  "example_env i rs =
     \<lparr>new_clients = Inr (),
      describe_instances = (\<lambda>ids. Inr [\<lparr>Instances = [i]\<rparr>]),
      list_resource_record_sets = (\<lambda>zone start_name start_type max_items. Inr rs),
      change_resource_record_sets = (\<lambda>zone batch. Inr ())\<rparr>"

definition example_config :: config where
  "example_config =
     \<lparr>DOMAIN_NAME = ''example.com'', ROUTE53_ZONE_ID = ''Z1'', AWS_PRIMARY_REGION = ''us-east-1''\<rparr>"

definition example_hw_config :: hw_config where
  "example_hw_config = \<lparr>hw_DOMAIN_NAME = Some ''example.com'', hw_ROUTE53_ZONE_ID = Some ''Z1''\<rparr>"

section \<open>Auxiliary facts\<close>

lemma lower_Nil_iff: "lower s = '''' \<longleftrightarrow> s = ''''"
  by (simp add: lower_def)

lemma next_dns_tag_find:
  "next_dns_tag tags =
     (case find (\<lambda>t. lower (strip (Key t)) = ''dns'') tags of
        None \<Rightarrow> '''' | Some t \<Rightarrow> lower (strip (Value t)))"
  by (induction tags) simp_all

lemma next_dns_tag_Nil_iff:
  "next_dns_tag tags = '''' \<longleftrightarrow>
     (case find (\<lambda>t. lower (strip (Key t)) = ''dns'') tags of
        None \<Rightarrow> True | Some t \<Rightarrow> strip (Value t) = '''')"
  by (simp add: next_dns_tag_find lower_Nil_iff split: option.splits)

lemma json_dumps_executed:
  "json_dumps ''Function executed'' = CHR 0x22 # ''Function executed'' @ [CHR 0x22]"
  by code_simp

lemma json_dumps_failed:
  "json_dumps ''Function failed'' = CHR 0x22 # ''Function failed'' @ [CHR 0x22]"
  by code_simp

lemma respond_cases:
  "respond b = (if b then \<lparr>statusCode = 200, body = CHR 0x22 # ''Function executed'' @ [CHR 0x22]\<rparr>
                else \<lparr>statusCode = 500, body = CHR 0x22 # ''Function failed'' @ [CHR 0x22]\<rparr>)"
  by (simp add: respond_def json_dumps_executed json_dumps_failed)

subsection \<open>\<open>auto_dns_mapping/app.py\<close>\<close>

lemma create_route53_record_set_eq:
  "create_route53_record_set e cfg self =
     (change_resource_record_sets e (Some (ROUTE53_ZONE_ID cfg))
        (upsert_batch (instance_id self) (record_name cfg self) (ipv4 self)) = Inr (),
      [ChangeCall (Some (ROUTE53_ZONE_ID cfg))
        (upsert_batch (instance_id self) (record_name cfg self) (ipv4 self))])"
  by (simp add: create_route53_record_set_def create_route53_record_set_body_def
      upsert_batch_def Let_def split: sum.splits)

lemma delete_mismatch:
  assumes "list_resource_record_sets e (Some (ROUTE53_ZONE_ID cfg)) (record_name cfg self) ''A'' ''1''
             = Inr (rd # rest)"
    and "Name rd \<noteq> record_name cfg self @ ''.''"
  shows "delete_route53_record_set_body e cfg self =
           (Inr False, [ListCall (Some (ROUTE53_ZONE_ID cfg)) (record_name cfg self) ''A'' ''1''])"
  using assms by (simp add: delete_route53_record_set_body_def Let_def)

lemma delete_match:
  assumes "list_resource_record_sets e (Some (ROUTE53_ZONE_ID cfg)) (record_name cfg self) ''A'' ''1''
             = Inr (rd # rest)"
    and "Name rd = record_name cfg self @ ''.''"
    and "ResourceRecords rd = Some (v # vs)"
    and "TTL rd = Some ttl"
  shows "delete_route53_record_set e cfg self =
           (change_resource_record_sets e (Some (ROUTE53_ZONE_ID cfg)) (delete_batch rd [v] ttl) = Inr (),
            [ListCall (Some (ROUTE53_ZONE_ID cfg)) (record_name cfg self) ''A'' ''1'',
             ChangeCall (Some (ROUTE53_ZONE_ID cfg)) (delete_batch rd [v] ttl)])"
  using assms
  by (simp add: delete_route53_record_set_def delete_route53_record_set_body_def Let_def
      delete_batch_def split: sum.splits)

lemma delete_mutations:
  "mutations (snd (delete_route53_record_set e cfg self)) =
     (if deletable (list_resource_record_sets e (Some (ROUTE53_ZONE_ID cfg))
                      (record_name cfg self) ''A'' ''1'') (record_name cfg self)
      then [[''DELETE'']] else [])"
  by (simp add: delete_route53_record_set_def delete_route53_record_set_body_def Let_def
      deletable_def split: sum.splits list.splits option.splits)

lemma set_dns_described:
  assumes "describe_instances e [instance_id self] = Inr (r # rs)"
    and "Instances r = i # insts"
    and "Tags i = Some tags"
  shows "set_dns e cfg self =
     (if next_dns_tag tags = '''' then (False, [])
      else if State_Name i = ''terminated''
      then delete_route53_record_set e cfg (self\<lparr>dns_str := next_dns_tag tags\<rparr>)
      else create_route53_record_set e cfg
             (self\<lparr>dns_str := next_dns_tag tags,
                   ipv4 := (if State_Name i = ''running''
                            then (case PublicIpAddress i of None \<Rightarrow> '''' | Some a \<Rightarrow> a)
                            else if State_Name i = ''stopped'' then ''127.0.0.1'' else ipv4 self)\<rparr>))"
  using assms
  by (cases "delete_route53_record_set e cfg (self\<lparr>dns_str := next_dns_tag tags\<rparr>)")
     (simp add: set_dns_def set_dns_body_def Let_def returned_def create_route53_record_set_eq)

lemma set_dns_no_Tags:
  assumes "describe_instances e [instance_id self] = Inr (r # rs)"
    and "Instances r = i # insts"
    and "Tags i = None"
  shows "set_dns e cfg self = (False, [])"
  using assms by (simp add: set_dns_def set_dns_body_def)

lemma set_dns_mutations_le: "length (mutations (snd (set_dns e cfg self))) \<le> 1"
proof -
  have d: "length (mutations (snd (delete_route53_record_set e cfg s))) \<le> 1" for s
    by (simp add: delete_mutations)
  have c: "length (mutations (snd (create_route53_record_set e cfg s))) \<le> 1" for s
    by (simp add: create_route53_record_set_eq)
  show ?thesis
    using d c
    by (simp add: set_dns_def set_dns_body_def Let_def returned_def
        split: sum.splits list.splits option.splits)
qed

subsection \<open>\<open>hello_world/app.py\<close>\<close>

lemma hw_create_route53_record_set_eq:
  "hw_create_route53_record_set e cfg self =
     (change_resource_record_sets e (hw_ROUTE53_ZONE_ID cfg)
        (upsert_batch (hw_instance_id self) (hw_record_name cfg self) (hw_ipv4 self)) = Inr (),
      [ChangeCall (hw_ROUTE53_ZONE_ID cfg)
        (upsert_batch (hw_instance_id self) (hw_record_name cfg self) (hw_ipv4 self))])"
  by (simp add: hw_create_route53_record_set_def hw_create_route53_record_set_body_def
      upsert_batch_def Let_def split: sum.splits)

lemma hw_delete_mismatch:
  assumes "list_resource_record_sets e (hw_ROUTE53_ZONE_ID cfg) (hw_record_name cfg self) ''A'' ''1''
             = Inr (rd # rest)"
    and "Name rd \<noteq> hw_record_name cfg self @ ''.''"
  shows "hw_delete_route53_record_set_body e cfg self =
           (Inr False, [ListCall (hw_ROUTE53_ZONE_ID cfg) (hw_record_name cfg self) ''A'' ''1''])"
  using assms by (simp add: hw_delete_route53_record_set_body_def Let_def)

lemma hw_delete_match:
  assumes "list_resource_record_sets e (hw_ROUTE53_ZONE_ID cfg) (hw_record_name cfg self) ''A'' ''1''
             = Inr (rd # rest)"
    and "Name rd = hw_record_name cfg self @ ''.''"
    and "ResourceRecords rd = Some (v # vs)"
    and "TTL rd = Some ttl"
  shows "hw_delete_route53_record_set e cfg self =
           (change_resource_record_sets e (hw_ROUTE53_ZONE_ID cfg) (delete_batch rd [v] ttl) = Inr (),
            [ListCall (hw_ROUTE53_ZONE_ID cfg) (hw_record_name cfg self) ''A'' ''1'',
             ChangeCall (hw_ROUTE53_ZONE_ID cfg) (delete_batch rd [v] ttl)])"
  using assms
  by (simp add: hw_delete_route53_record_set_def hw_delete_route53_record_set_body_def Let_def
      delete_batch_def split: sum.splits)

lemma hw_delete_mutations:
  "mutations (snd (hw_delete_route53_record_set e cfg self)) =
     (if deletable (list_resource_record_sets e (hw_ROUTE53_ZONE_ID cfg)
                      (hw_record_name cfg self) ''A'' ''1'') (hw_record_name cfg self)
      then [[''DELETE'']] else [])"
  by (simp add: hw_delete_route53_record_set_def hw_delete_route53_record_set_body_def Let_def
      deletable_def split: sum.splits list.splits option.splits)

lemma hw_set_dns_described:
  assumes "describe_instances e [hw_instance_id self] = Inr (r # rs)"
    and "Instances r = i # insts"
  shows "hw_set_dns e cfg self =
     (if State_Name i = ''terminated''
      then hw_delete_route53_record_set e cfg (self\<lparr>hw_dns_str := next_dns_tag (get_Tags i)\<rparr>)
      else hw_create_route53_record_set e cfg
             (self\<lparr>hw_dns_str := next_dns_tag (get_Tags i),
                   hw_ipv4 := (if State_Name i = ''running''
                               then (case PublicIpAddress i of None \<Rightarrow> '''' | Some a \<Rightarrow> a)
                               else if State_Name i = ''stopped'' then ''127.0.0.1''
                               else hw_ipv4 self)\<rparr>))"
  using assms
  by (cases "hw_delete_route53_record_set e cfg (self\<lparr>hw_dns_str := next_dns_tag (get_Tags i)\<rparr>)")
     (simp add: hw_set_dns_def hw_set_dns_body_def Let_def returned_def
        hw_create_route53_record_set_eq del: get_Tags.simps)

lemma hw_set_dns_mutations_le: "length (mutations (snd (hw_set_dns e cfg self))) \<le> 1"
proof -
  have d: "length (mutations (snd (hw_delete_route53_record_set e cfg s))) \<le> 1" for s
    by (simp add: hw_delete_mutations)
  have c: "length (mutations (snd (hw_create_route53_record_set e cfg s))) \<le> 1" for s
    by (simp add: hw_create_route53_record_set_eq)
  show ?thesis
    using d c
    by (simp add: hw_set_dns_def hw_set_dns_body_def Let_def returned_def
        del: get_Tags.simps split: sum.splits list.splits)
qed

section \<open>The claims\<close>

subsection \<open>C1: no DNS Name Tag\<close>

text \<open>
  C1, as the code has it. In \<open>auto_dns_mapping/app.py\<close>, when the instance lookup
  returns an instance whose tags hold no tag with stripped, lower-cased key \<open>dns\<close>, or
  whose first such tag has a value that is blank after stripping, \<open>set_dns\<close> issues no
  call against the zone API and returns \<open>False\<close>, the value it returns on every failure.
\<close>

theorem set_dns_without_dns_tag:
  assumes "describe_instances e [instance_id self] = Inr (r # rs)"
    and "Instances r = i # insts"
    and "case find (\<lambda>t. lower (strip (Key t)) = ''dns'') (get_Tags i) of
           None \<Rightarrow> True | Some t \<Rightarrow> strip (Value t) = ''''"
  shows "set_dns e cfg self = (False, [])"
proof (cases "Tags i")
  case None
  with assms(1,2) show ?thesis by (simp add: set_dns_no_Tags)
next
  case (Some tags)
  with assms(3) have "next_dns_tag tags = ''''"
    by (simp add: next_dns_tag_Nil_iff)
  with assms(1,2) Some show ?thesis by (simp add: set_dns_described)
qed

text \<open>An instance tagged \<open>Name=web\<close> and \<open>DNS=\<close> (two spaces).\<close>

theorem set_dns_without_dns_tag_witness:
  "set_dns
     (example_env \<lparr>State_Name = ''running'',
        Tags = Some [\<lparr>Key = ''Name'', Value = ''web''\<rparr>, \<lparr>Key = ''DNS'', Value = ''  ''\<rparr>],
        PublicIpAddress = Some ''1.2.3.4''\<rparr> [])
     example_config (init ''i-1'') = (False, [])"
proof -
  let ?i = "\<lparr>State_Name = ''running'',
        Tags = Some [\<lparr>Key = ''Name'', Value = ''web''\<rparr>, \<lparr>Key = ''DNS'', Value = ''  ''\<rparr>],
        PublicIpAddress = Some ''1.2.3.4''\<rparr>"
  have h1: "describe_instances (example_env ?i []) [instance_id (init ''i-1'')]
              = Inr (\<lparr>Instances = [?i]\<rparr> # [])"
    by (simp add: example_env_def)
  have h2: "Instances \<lparr>Instances = [?i]\<rparr> = ?i # []"
    by simp
  have h3: "case find (\<lambda>t. lower (strip (Key t)) = ''dns'') (get_Tags ?i) of
              None \<Rightarrow> True | Some t \<Rightarrow> strip (Value t) = ''''"
    by code_simp
  show ?thesis
    by (rule set_dns_without_dns_tag [OF h1 h2 h3])
qed

text \<open>
  For an instance with the one tag \<open>Name=web\<close> the handler answers with status 500 and
  \<open>Function failed\<close>: the outcome is the failure result, not a success.
\<close>

theorem set_dns_without_dns_tag_counterexample:
  "lambda_handler
     (example_env \<lparr>State_Name = ''running'', Tags = Some [\<lparr>Key = ''Name'', Value = ''web''\<rparr>],
        PublicIpAddress = Some ''1.2.3.4''\<rparr> [])
     example_config [''detail'' \<mapsto> [''instance-id'' \<mapsto> ''i-1'']]
   = (Inr \<lparr>statusCode = 500, body = CHR 0x22 # ''Function failed'' @ [CHR 0x22]\<rparr>, [])"
  by code_simp

subsection \<open>C2: the other lifecycle states\<close>

text \<open>
  C2, as the code has it. When the instance's state is none of \<open>running\<close>, \<open>stopped\<close>
  and \<open>terminated\<close> and the DNS Name Tag is not blank, \<open>set_dns\<close> of a new mapper
  submits exactly one \<open>UPSERT\<close> for the record name, whose resource value is the empty
  string, and returns whether the provider accepted it.
\<close>

theorem set_dns_other_state:
  assumes "describe_instances e [iid] = Inr (r # rs)"
    and "Instances r = i # insts"
    and "State_Name i \<noteq> ''running''"
    and "State_Name i \<noteq> ''stopped''"
    and "State_Name i \<noteq> ''terminated''"
    and "next_dns_tag (get_Tags i) \<noteq> ''''"
  shows "set_dns e cfg (init iid) =
           (change_resource_record_sets e (Some (ROUTE53_ZONE_ID cfg))
              (upsert_batch iid
                 (''autodns-'' @ next_dns_tag (get_Tags i) @ ''.'' @ DOMAIN_NAME cfg) '''') = Inr (),
            [ChangeCall (Some (ROUTE53_ZONE_ID cfg))
              (upsert_batch iid
                 (''autodns-'' @ next_dns_tag (get_Tags i) @ ''.'' @ DOMAIN_NAME cfg) '''')])
       \<and> hw_set_dns e hcfg (hw_init iid) =
           (change_resource_record_sets e (hw_ROUTE53_ZONE_ID hcfg)
              (upsert_batch iid
                 (next_dns_tag (get_Tags i) @ ''.'' @ format_str (hw_DOMAIN_NAME hcfg)) '''') = Inr (),
            [ChangeCall (hw_ROUTE53_ZONE_ID hcfg)
              (upsert_batch iid
                 (next_dns_tag (get_Tags i) @ ''.'' @ format_str (hw_DOMAIN_NAME hcfg)) '''')])"
proof -
  from assms(6) obtain tags where t: "Tags i = Some tags"
    by (cases "Tags i") auto
  have d: "describe_instances e [instance_id (init iid)] = Inr (r # rs)"
    using assms(1) by (simp add: init_def)
  have hd: "describe_instances e [hw_instance_id (hw_init iid)] = Inr (r # rs)"
    using assms(1) by (simp add: hw_init_def)
  have a: "set_dns e cfg (init iid) =
           (change_resource_record_sets e (Some (ROUTE53_ZONE_ID cfg))
              (upsert_batch iid
                 (''autodns-'' @ next_dns_tag (get_Tags i) @ ''.'' @ DOMAIN_NAME cfg) '''') = Inr (),
            [ChangeCall (Some (ROUTE53_ZONE_ID cfg))
              (upsert_batch iid
                 (''autodns-'' @ next_dns_tag (get_Tags i) @ ''.'' @ DOMAIN_NAME cfg) '''')])"
    using assms(3-6) t
    by (subst set_dns_described [OF d assms(2) t])
       (simp add: create_route53_record_set_eq record_name_def init_def)
  have h: "hw_set_dns e hcfg (hw_init iid) =
           (change_resource_record_sets e (hw_ROUTE53_ZONE_ID hcfg)
              (upsert_batch iid
                 (next_dns_tag (get_Tags i) @ ''.'' @ format_str (hw_DOMAIN_NAME hcfg)) '''') = Inr (),
            [ChangeCall (hw_ROUTE53_ZONE_ID hcfg)
              (upsert_batch iid
                 (next_dns_tag (get_Tags i) @ ''.'' @ format_str (hw_DOMAIN_NAME hcfg)) '''')])"
    using assms(3-5)
    by (subst hw_set_dns_described [OF hd assms(2)])
       (simp add: hw_create_route53_record_set_eq hw_record_name_def hw_init_def
          del: get_Tags.simps)
  from a h show ?thesis by (rule conjI)
qed

lemma next_dns_tag_web1: "next_dns_tag [\<lparr>Key = ''dns'', Value = ''web1''\<rparr>] = ''web1''"
  by code_simp

text \<open>An instance in state \<open>pending\<close> with the tag \<open>dns=web1\<close>, in both programs.\<close>

theorem set_dns_other_state_witness:
  "set_dns
     (example_env \<lparr>State_Name = ''pending'', Tags = Some [\<lparr>Key = ''dns'', Value = ''web1''\<rparr>],
        PublicIpAddress = None\<rparr> [])
     example_config (init ''i-1'')
   = (True, [ChangeCall (Some ''Z1'') (upsert_batch ''i-1'' ''autodns-web1.example.com'' '''')])
   \<and> hw_set_dns
     (example_env \<lparr>State_Name = ''pending'', Tags = Some [\<lparr>Key = ''dns'', Value = ''web1''\<rparr>],
        PublicIpAddress = None\<rparr> [])
     example_hw_config (hw_init ''i-1'')
   = (True, [ChangeCall (Some ''Z1'') (upsert_batch ''i-1'' ''web1.example.com'' '''')])"
proof -
  let ?i = "\<lparr>State_Name = ''pending'', Tags = Some [\<lparr>Key = ''dns'', Value = ''web1''\<rparr>],
        PublicIpAddress = None\<rparr>"
  have h1: "describe_instances (example_env ?i []) [''i-1''] = Inr (\<lparr>Instances = [?i]\<rparr> # [])"
    by (simp add: example_env_def)
  have h2: "Instances \<lparr>Instances = [?i]\<rparr> = ?i # []"
    by simp
  have h3: "State_Name ?i \<noteq> ''running''" and h4: "State_Name ?i \<noteq> ''stopped''"
    and h5: "State_Name ?i \<noteq> ''terminated''"
    by simp_all
  have h6: "next_dns_tag (get_Tags ?i) \<noteq> ''''"
    by code_simp
  have g: "next_dns_tag (get_Tags ?i) = ''web1''"
    by code_simp
  have c: "change_resource_record_sets (example_env ?i []) z b = Inr ()" for z b
    by (simp add: example_env_def)
  have k: "ROUTE53_ZONE_ID example_config = ''Z1''" "DOMAIN_NAME example_config = ''example.com''"
    "hw_ROUTE53_ZONE_ID example_hw_config = Some ''Z1''"
    "hw_DOMAIN_NAME example_hw_config = Some ''example.com''"
    by (simp_all add: example_config_def example_hw_config_def)
  show ?thesis
    using set_dns_other_state [OF h1 h2 h3 h4 h5 h6, of example_config example_hw_config]
    unfolding g c k by simp
qed

text \<open>
  The same instance in \<open>auto_dns_mapping/app.py\<close>: a mutating call is made, and the
  result is that call's.
\<close>

theorem set_dns_other_state_counterexample:
  "mutations (snd (set_dns
     (example_env \<lparr>State_Name = ''pending'', Tags = Some [\<lparr>Key = ''dns'', Value = ''web1''\<rparr>],
        PublicIpAddress = None\<rparr> [])
     example_config (init ''i-1''))) = [[''UPSERT'']]"
  by code_simp

subsection \<open>C3: the handler's result\<close>

text \<open>
  C3, as the code has it. For every event that holds \<open>detail\<close> and, in it,
  \<open>instance-id\<close>, and when the two clients are created, \<open>lambda_handler\<close> returns
  status 200 with the body \<open>"Function executed"\<close> or status 500 with the body
  \<open>"Function failed"\<close>, and raises nothing; this holds in both programs.
\<close>

theorem lambda_handler_result:
  assumes "ev ''detail'' = Some detail"
    and "detail ''instance-id'' = Some iid"
    and "new_clients e = Inr ()"
  shows "(fst (lambda_handler e cfg ev)
            = Inr \<lparr>statusCode = 200, body = CHR 0x22 # ''Function executed'' @ [CHR 0x22]\<rparr>
          \<or> fst (lambda_handler e cfg ev)
            = Inr \<lparr>statusCode = 500, body = CHR 0x22 # ''Function failed'' @ [CHR 0x22]\<rparr>)
       \<and> (fst (hw_lambda_handler e hcfg ev)
            = Inr \<lparr>statusCode = 200, body = CHR 0x22 # ''Function executed'' @ [CHR 0x22]\<rparr>
          \<or> fst (hw_lambda_handler e hcfg ev)
            = Inr \<lparr>statusCode = 500, body = CHR 0x22 # ''Function failed'' @ [CHR 0x22]\<rparr>)"
proof -
  have a: "fst (lambda_handler e cfg ev) = Inr (respond (fst (set_dns e cfg (init iid))))"
    using assms by (simp add: lambda_handler_def Let_def)
  have h: "fst (hw_lambda_handler e hcfg ev) = Inr (respond (fst (hw_set_dns e hcfg (hw_init iid))))"
    using assms by (simp add: hw_lambda_handler_def Let_def)
  show ?thesis
    unfolding a h by (simp add: respond_cases)
qed

text \<open>The event of a stopped instance \<open>i-1\<close> tagged \<open>dns=web1\<close>.\<close>

theorem lambda_handler_result_witness:
  "fst (lambda_handler
     (example_env \<lparr>State_Name = ''stopped'', Tags = Some [\<lparr>Key = ''dns'', Value = ''web1''\<rparr>],
        PublicIpAddress = None\<rparr> [])
     example_config [''detail'' \<mapsto> [''instance-id'' \<mapsto> ''i-1'']])
   \<in> {Inr \<lparr>statusCode = 200, body = CHR 0x22 # ''Function executed'' @ [CHR 0x22]\<rparr>,
       Inr \<lparr>statusCode = 500, body = CHR 0x22 # ''Function failed'' @ [CHR 0x22]\<rparr>}"
proof -
  let ?i = "\<lparr>State_Name = ''stopped'', Tags = Some [\<lparr>Key = ''dns'', Value = ''web1''\<rparr>],
        PublicIpAddress = None\<rparr>"
  have h1: "[''detail'' \<mapsto> [''instance-id'' \<mapsto> ''i-1'']] ''detail''
              = Some [''instance-id'' \<mapsto> ''i-1'']"
    by simp
  have h2: "[''instance-id'' \<mapsto> ''i-1''] ''instance-id'' = Some ''i-1''"
    by simp
  have h3: "new_clients (example_env ?i []) = Inr ()"
    by (simp add: example_env_def)
  show ?thesis
    using lambda_handler_result
      [where ev = "[''detail'' \<mapsto> [''instance-id'' \<mapsto> ''i-1'']]"
         and detail = "[''instance-id'' \<mapsto> ''i-1'']" and iid = "''i-1''"
         and e = "example_env ?i []" and cfg = example_config and hcfg = example_hw_config,
       OF h1 h2 h3]
    by blast
qed

text \<open>An event without \<open>detail\<close>: the handler raises \<open>KeyError\<close>.\<close>

theorem lambda_handler_result_counterexample:
  "fst (lambda_handler
     (example_env \<lparr>State_Name = ''stopped'', Tags = Some [\<lparr>Key = ''dns'', Value = ''web1''\<rparr>],
        PublicIpAddress = None\<rparr> [])
     example_config Map.empty) = Inl (KeyError ''detail'')"
  by (simp add: lambda_handler_def)

subsection \<open>C4: scenario A\<close>

text \<open>
  C4, as the code has it. For an instance in state \<open>running\<close> with the tag \<open>dns=web1\<close>
  and the public address \<open>1.2.3.4\<close>, and the parent domain \<open>example.com\<close>, \<open>set_dns\<close>
  submits one \<open>UPSERT\<close> with the value \<open>1.2.3.4\<close>, TTL 300 and type \<open>A\<close>: for the
  record name \<open>web1.example.com\<close> in \<open>hello_world/app.py\<close>, and for
  \<open>autodns-web1.example.com\<close> in \<open>auto_dns_mapping/app.py\<close>.
\<close>

theorem set_dns_scenario_A:
  assumes "describe_instances e [iid] = Inr (r # rs)"
    and "Instances r = i # insts"
    and "State_Name i = ''running''"
    and "Tags i = Some [\<lparr>Key = ''dns'', Value = ''web1''\<rparr>]"
    and "PublicIpAddress i = Some ''1.2.3.4''"
    and "DOMAIN_NAME cfg = ''example.com''"
    and "hw_DOMAIN_NAME hcfg = Some ''example.com''"
  shows "snd (hw_set_dns e hcfg (hw_init iid)) =
           [ChangeCall (hw_ROUTE53_ZONE_ID hcfg)
              (upsert_batch iid ''web1.example.com'' ''1.2.3.4'')]
       \<and> snd (set_dns e cfg (init iid)) =
           [ChangeCall (Some (ROUTE53_ZONE_ID cfg))
              (upsert_batch iid ''autodns-web1.example.com'' ''1.2.3.4'')]"
proof -
  have d: "describe_instances e [instance_id (init iid)] = Inr (r # rs)"
    using assms(1) by (simp add: init_def)
  have hd: "describe_instances e [hw_instance_id (hw_init iid)] = Inr (r # rs)"
    using assms(1) by (simp add: hw_init_def)
  have g: "get_Tags i = [\<lparr>Key = ''dns'', Value = ''web1''\<rparr>]"
    using assms(4) by simp
  have h: "snd (hw_set_dns e hcfg (hw_init iid)) =
           [ChangeCall (hw_ROUTE53_ZONE_ID hcfg)
              (upsert_batch iid ''web1.example.com'' ''1.2.3.4'')]"
    unfolding hw_set_dns_described [OF hd assms(2)] g next_dns_tag_web1
    using assms(3,5,7)
    by (simp add: hw_create_route53_record_set_eq hw_record_name_def hw_init_def)
  have a: "snd (set_dns e cfg (init iid)) =
           [ChangeCall (Some (ROUTE53_ZONE_ID cfg))
              (upsert_batch iid ''autodns-web1.example.com'' ''1.2.3.4'')]"
    unfolding set_dns_described [OF d assms(2,4)] next_dns_tag_web1
    using assms(3,5,6)
    by (simp add: create_route53_record_set_eq record_name_def init_def)
  from h a show ?thesis by (rule conjI)
qed

theorem set_dns_scenario_A_witness:
  "snd (hw_set_dns
     (example_env \<lparr>State_Name = ''running'', Tags = Some [\<lparr>Key = ''dns'', Value = ''web1''\<rparr>],
        PublicIpAddress = Some ''1.2.3.4''\<rparr> [])
     example_hw_config (hw_init ''i-1''))
   = [ChangeCall (Some ''Z1'') (upsert_batch ''i-1'' ''web1.example.com'' ''1.2.3.4'')]
   \<and> snd (set_dns
     (example_env \<lparr>State_Name = ''running'', Tags = Some [\<lparr>Key = ''dns'', Value = ''web1''\<rparr>],
        PublicIpAddress = Some ''1.2.3.4''\<rparr> [])
     example_config (init ''i-1''))
   = [ChangeCall (Some ''Z1'') (upsert_batch ''i-1'' ''autodns-web1.example.com'' ''1.2.3.4'')]"
proof -
  let ?i = "\<lparr>State_Name = ''running'', Tags = Some [\<lparr>Key = ''dns'', Value = ''web1''\<rparr>],
        PublicIpAddress = Some ''1.2.3.4''\<rparr>"
  have h1: "describe_instances (example_env ?i []) [''i-1''] = Inr (\<lparr>Instances = [?i]\<rparr> # [])"
    by (simp add: example_env_def)
  have h2: "Instances \<lparr>Instances = [?i]\<rparr> = ?i # []"
    by simp
  have h3: "State_Name ?i = ''running''"
    and h4: "Tags ?i = Some [\<lparr>Key = ''dns'', Value = ''web1''\<rparr>]"
    and h5: "PublicIpAddress ?i = Some ''1.2.3.4''"
    by simp_all
  have h6: "DOMAIN_NAME example_config = ''example.com''"
    by (simp add: example_config_def)
  have h7: "hw_DOMAIN_NAME example_hw_config = Some ''example.com''"
    by (simp add: example_hw_config_def)
  have k: "ROUTE53_ZONE_ID example_config = ''Z1''"
    "hw_ROUTE53_ZONE_ID example_hw_config = Some ''Z1''"
    by (simp_all add: example_config_def example_hw_config_def)
  show ?thesis
    using set_dns_scenario_A [OF h1 h2 h3 h4 h5 h6 h7] unfolding k .
qed

text \<open>
  Scenario A in \<open>auto_dns_mapping/app.py\<close>: the record name submitted is
  \<open>autodns-web1.example.com\<close>, not \<open>web1.example.com\<close>.
\<close>

theorem set_dns_scenario_A_counterexample:
  "snd (set_dns
     (example_env \<lparr>State_Name = ''running'', Tags = Some [\<lparr>Key = ''dns'', Value = ''web1''\<rparr>],
        PublicIpAddress = Some ''1.2.3.4''\<rparr> [])
     example_config (init ''i-1''))
   \<noteq> [ChangeCall (Some ''Z1'') (upsert_batch ''i-1'' ''web1.example.com'' ''1.2.3.4'')]"
  by code_simp

subsection \<open>C5: the deletion's name check\<close>

text \<open>
  C5. In the deletion, if the first record set the zone query returns has a name other
  than the target name followed by a dot, then the body of the deletion returns
  \<open>False\<close> (it raises nothing), the only call issued is the query, so no \<open>DELETE\<close> is
  submitted, and the deletion's result is \<open>False\<close>; this holds in both programs.
\<close>

theorem delete_name_mismatch:
  assumes "list_resource_record_sets e (Some (ROUTE53_ZONE_ID cfg)) (record_name cfg self)
             ''A'' ''1'' = Inr (rd # rest)"
    and "Name rd \<noteq> record_name cfg self @ ''.''"
    and "list_resource_record_sets he (hw_ROUTE53_ZONE_ID hcfg) (hw_record_name hcfg hself)
             ''A'' ''1'' = Inr (hrd # hrest)"
    and "Name hrd \<noteq> hw_record_name hcfg hself @ ''.''"
  shows "delete_route53_record_set_body e cfg self =
           (Inr False, [ListCall (Some (ROUTE53_ZONE_ID cfg)) (record_name cfg self) ''A'' ''1''])
       \<and> delete_route53_record_set e cfg self =
           (False, [ListCall (Some (ROUTE53_ZONE_ID cfg)) (record_name cfg self) ''A'' ''1''])
       \<and> hw_delete_route53_record_set_body he hcfg hself =
           (Inr False, [ListCall (hw_ROUTE53_ZONE_ID hcfg) (hw_record_name hcfg hself) ''A'' ''1''])
       \<and> hw_delete_route53_record_set he hcfg hself =
           (False, [ListCall (hw_ROUTE53_ZONE_ID hcfg) (hw_record_name hcfg hself) ''A'' ''1''])"
  using delete_mismatch [OF assms(1,2)] hw_delete_mismatch [OF assms(3,4)]
  by (simp add: delete_route53_record_set_def hw_delete_route53_record_set_def)

text \<open>
  The zone holds no record for \<open>web1\<close>, and the query returns the next one,
  \<open>web2.example.com.\<close>
\<close>

theorem delete_name_mismatch_witness:
  "delete_route53_record_set
     (example_env \<lparr>State_Name = ''terminated'', Tags = None, PublicIpAddress = None\<rparr>
        [\<lparr>Name = ''web2.example.com.'', ResourceRecords = Some [''5.6.7.8''], TTL = Some 300,
          Type = ''A''\<rparr>])
     example_config ((init ''i-1'')\<lparr>dns_str := ''web1''\<rparr>)
   = (False, [ListCall (Some ''Z1'') ''autodns-web1.example.com'' ''A'' ''1''])
   \<and> hw_delete_route53_record_set
     (example_env \<lparr>State_Name = ''terminated'', Tags = None, PublicIpAddress = None\<rparr>
        [\<lparr>Name = ''web2.example.com.'', ResourceRecords = Some [''5.6.7.8''], TTL = Some 300,
          Type = ''A''\<rparr>])
     example_hw_config ((hw_init ''i-1'')\<lparr>hw_dns_str := ''web1''\<rparr>)
   = (False, [ListCall (Some ''Z1'') ''web1.example.com'' ''A'' ''1''])"
proof -
  let ?rd = "\<lparr>Name = ''web2.example.com.'', ResourceRecords = Some [''5.6.7.8''],
        TTL = Some 300, Type = ''A''\<rparr>"
  let ?e = "example_env \<lparr>State_Name = ''terminated'', Tags = None, PublicIpAddress = None\<rparr> [?rd]"
  let ?self = "(init ''i-1'')\<lparr>dns_str := ''web1''\<rparr>"
  let ?hself = "(hw_init ''i-1'')\<lparr>hw_dns_str := ''web1''\<rparr>"
  have n: "record_name example_config ?self = ''autodns-web1.example.com''"
    by (simp add: record_name_def example_config_def init_def)
  have hn: "hw_record_name example_hw_config ?hself = ''web1.example.com''"
    by (simp add: hw_record_name_def example_hw_config_def hw_init_def)
  have h1: "list_resource_record_sets ?e (Some (ROUTE53_ZONE_ID example_config))
              (record_name example_config ?self) ''A'' ''1'' = Inr (?rd # [])"
    by (simp add: example_env_def)
  have h2: "Name ?rd \<noteq> record_name example_config ?self @ ''.''"
    unfolding n by simp
  have h3: "list_resource_record_sets ?e (hw_ROUTE53_ZONE_ID example_hw_config)
              (hw_record_name example_hw_config ?hself) ''A'' ''1'' = Inr (?rd # [])"
    by (simp add: example_env_def)
  have h4: "Name ?rd \<noteq> hw_record_name example_hw_config ?hself @ ''.''"
    unfolding hn by simp
  have k: "ROUTE53_ZONE_ID example_config = ''Z1''"
    "hw_ROUTE53_ZONE_ID example_hw_config = Some ''Z1''"
    by (simp_all add: example_config_def example_hw_config_def)
  show ?thesis
    using delete_name_mismatch [OF h1 h2 h3 h4] unfolding n hn k by blast
qed

subsection \<open>C6: the number of mutating calls\<close>

text \<open>
  C6, as the code has it. Every invocation of \<open>set_dns\<close> issues at most one mutating
  call. When the instance lookup returns an instance with a non-blank DNS Name Tag, a
  new mapper issues exactly one \<open>UPSERT\<close> if the state is not \<open>terminated\<close>; if the
  state is \<open>terminated\<close> it issues exactly one \<open>DELETE\<close> when the zone query returns a
  first record set with the target name followed by a dot, a resource value and a TTL,
  and no mutating call otherwise. This holds in both programs.
\<close>

theorem set_dns_mutations:
  "length (mutations (snd (set_dns e cfg self))) \<le> 1
   \<and> length (mutations (snd (hw_set_dns e hcfg hself))) \<le> 1
   \<and> (describe_instances e [iid] = Inr (r # rs) \<and> Instances r = i # insts
        \<and> next_dns_tag (get_Tags i) \<noteq> '''' \<longrightarrow>
      mutations (snd (set_dns e cfg (init iid))) =
        (if State_Name i = ''terminated''
         then if deletable
                   (list_resource_record_sets e (Some (ROUTE53_ZONE_ID cfg))
                      (''autodns-'' @ next_dns_tag (get_Tags i) @ ''.'' @ DOMAIN_NAME cfg)
                      ''A'' ''1'')
                   (''autodns-'' @ next_dns_tag (get_Tags i) @ ''.'' @ DOMAIN_NAME cfg)
              then [[''DELETE'']] else []
         else [[''UPSERT'']])
      \<and> mutations (snd (hw_set_dns e hcfg (hw_init iid))) =
        (if State_Name i = ''terminated''
         then if deletable
                   (list_resource_record_sets e (hw_ROUTE53_ZONE_ID hcfg)
                      (next_dns_tag (get_Tags i) @ ''.'' @ format_str (hw_DOMAIN_NAME hcfg))
                      ''A'' ''1'')
                   (next_dns_tag (get_Tags i) @ ''.'' @ format_str (hw_DOMAIN_NAME hcfg))
              then [[''DELETE'']] else []
         else [[''UPSERT'']]))"
proof (intro conjI impI)
  show "length (mutations (snd (set_dns e cfg self))) \<le> 1"
    by (rule set_dns_mutations_le)
  show "length (mutations (snd (hw_set_dns e hcfg hself))) \<le> 1"
    by (rule hw_set_dns_mutations_le)
next
  assume h: "describe_instances e [iid] = Inr (r # rs) \<and> Instances r = i # insts
        \<and> next_dns_tag (get_Tags i) \<noteq> ''''"
  then obtain tags where t: "Tags i = Some tags"
    by (cases "Tags i") auto
  have d: "describe_instances e [instance_id (init iid)] = Inr (r # rs)"
    using h by (simp add: init_def)
  have i: "Instances r = i # insts"
    using h by simp
  show "mutations (snd (set_dns e cfg (init iid))) =
        (if State_Name i = ''terminated''
         then if deletable
                   (list_resource_record_sets e (Some (ROUTE53_ZONE_ID cfg))
                      (''autodns-'' @ next_dns_tag (get_Tags i) @ ''.'' @ DOMAIN_NAME cfg)
                      ''A'' ''1'')
                   (''autodns-'' @ next_dns_tag (get_Tags i) @ ''.'' @ DOMAIN_NAME cfg)
              then [[''DELETE'']] else []
         else [[''UPSERT'']])"
    using h t
    by (subst set_dns_described [OF d i t])
       (simp add: delete_mutations create_route53_record_set_eq record_name_def init_def
          upsert_batch_def)
next
  assume h: "describe_instances e [iid] = Inr (r # rs) \<and> Instances r = i # insts
        \<and> next_dns_tag (get_Tags i) \<noteq> ''''"
  have d: "describe_instances e [hw_instance_id (hw_init iid)] = Inr (r # rs)"
    using h by (simp add: hw_init_def)
  have i: "Instances r = i # insts"
    using h by simp
  show "mutations (snd (hw_set_dns e hcfg (hw_init iid))) =
        (if State_Name i = ''terminated''
         then if deletable
                   (list_resource_record_sets e (hw_ROUTE53_ZONE_ID hcfg)
                      (next_dns_tag (get_Tags i) @ ''.'' @ format_str (hw_DOMAIN_NAME hcfg))
                      ''A'' ''1'')
                   (next_dns_tag (get_Tags i) @ ''.'' @ format_str (hw_DOMAIN_NAME hcfg))
              then [[''DELETE'']] else []
         else [[''UPSERT'']])"
    by (subst hw_set_dns_described [OF d i])
       (simp add: hw_delete_mutations hw_create_route53_record_set_eq hw_record_name_def
          hw_init_def upsert_batch_def del: get_Tags.simps)
qed

text \<open>A stopped instance tagged \<open>dns=web1\<close>: one \<open>UPSERT\<close> in each program.\<close>

theorem set_dns_mutations_witness:
  "mutations (snd (set_dns
     (example_env \<lparr>State_Name = ''stopped'', Tags = Some [\<lparr>Key = ''dns'', Value = ''web1''\<rparr>],
        PublicIpAddress = None\<rparr> [])
     example_config (init ''i-1''))) = [[''UPSERT'']]
   \<and> mutations (snd (hw_set_dns
     (example_env \<lparr>State_Name = ''stopped'', Tags = Some [\<lparr>Key = ''dns'', Value = ''web1''\<rparr>],
        PublicIpAddress = None\<rparr> [])
     example_hw_config (hw_init ''i-1''))) = [[''UPSERT'']]"
proof -
  let ?i = "\<lparr>State_Name = ''stopped'', Tags = Some [\<lparr>Key = ''dns'', Value = ''web1''\<rparr>],
        PublicIpAddress = None\<rparr>"
  have h: "describe_instances (example_env ?i []) [''i-1''] = Inr (\<lparr>Instances = [?i]\<rparr> # [])
           \<and> Instances \<lparr>Instances = [?i]\<rparr> = ?i # []
           \<and> next_dns_tag (get_Tags ?i) \<noteq> ''''"
    by (simp add: example_env_def next_dns_tag_web1 del: next_dns_tag.simps)
  have s: "State_Name ?i \<noteq> ''terminated''"
    by simp
  show ?thesis
    using set_dns_mutations
      [where e = "example_env ?i []" and iid = "''i-1''" and r = "\<lparr>Instances = [?i]\<rparr>"
         and rs = "[]" and i = ?i and insts = "[]" and cfg = example_config
         and hcfg = example_hw_config]
      h s
    by presburger
qed

text \<open>
  A terminated instance tagged \<open>dns=web1\<close>, when the zone holds no record for it and
  the query returns \<open>web2.example.com.\<close>: no mutating call is issued.
\<close>

theorem set_dns_mutations_counterexample:
  "mutations (snd (set_dns
     (example_env \<lparr>State_Name = ''terminated'', Tags = Some [\<lparr>Key = ''dns'', Value = ''web1''\<rparr>],
        PublicIpAddress = None\<rparr>
        [\<lparr>Name = ''web2.example.com.'', ResourceRecords = Some [''5.6.7.8''], TTL = Some 300,
          Type = ''A''\<rparr>])
     example_config (init ''i-1''))) = []"
  by code_simp

subsection \<open>C7: the change a deletion submits\<close>

text \<open>
  C7, as the code has it. When the first record set the zone query returns has the
  target name followed by a dot, a TTL and at least one resource value, the deletion
  issues, after the query, exactly one change: a single \<open>DELETE\<close> with the name, the
  TTL and the type of that record set and with its first resource value only. This
  holds in both programs.
\<close>

theorem delete_submits_first_value:
  assumes "list_resource_record_sets e (Some (ROUTE53_ZONE_ID cfg)) (record_name cfg self)
             ''A'' ''1'' = Inr (rd # rest)"
    and "Name rd = record_name cfg self @ ''.''"
    and "ResourceRecords rd = Some (v # vs)"
    and "TTL rd = Some ttl"
    and "list_resource_record_sets he (hw_ROUTE53_ZONE_ID hcfg) (hw_record_name hcfg hself)
             ''A'' ''1'' = Inr (hrd # hrest)"
    and "Name hrd = hw_record_name hcfg hself @ ''.''"
    and "ResourceRecords hrd = Some (hv # hvs)"
    and "TTL hrd = Some httl"
  shows "snd (delete_route53_record_set e cfg self) =
           [ListCall (Some (ROUTE53_ZONE_ID cfg)) (record_name cfg self) ''A'' ''1'',
            ChangeCall (Some (ROUTE53_ZONE_ID cfg)) (delete_batch rd [v] ttl)]
       \<and> snd (hw_delete_route53_record_set he hcfg hself) =
           [ListCall (hw_ROUTE53_ZONE_ID hcfg) (hw_record_name hcfg hself) ''A'' ''1'',
            ChangeCall (hw_ROUTE53_ZONE_ID hcfg) (delete_batch hrd [hv] httl)]"
  using delete_match [OF assms(1-4)] hw_delete_match [OF assms(5-8)]
  by simp

text \<open>A record set with one value in each zone.\<close>

theorem delete_submits_first_value_witness:
  "snd (delete_route53_record_set
     (example_env \<lparr>State_Name = ''terminated'', Tags = None, PublicIpAddress = None\<rparr>
        [\<lparr>Name = ''autodns-web1.example.com.'', ResourceRecords = Some [''1.2.3.4''],
          TTL = Some 300, Type = ''A''\<rparr>])
     example_config ((init ''i-1'')\<lparr>dns_str := ''web1''\<rparr>))
   = [ListCall (Some ''Z1'') ''autodns-web1.example.com'' ''A'' ''1'',
      ChangeCall (Some ''Z1'')
        (delete_batch \<lparr>Name = ''autodns-web1.example.com.'', ResourceRecords = Some [''1.2.3.4''],
            TTL = Some 300, Type = ''A''\<rparr> [''1.2.3.4''] 300)]
   \<and> snd (hw_delete_route53_record_set
     (example_env \<lparr>State_Name = ''terminated'', Tags = None, PublicIpAddress = None\<rparr>
        [\<lparr>Name = ''web1.example.com.'', ResourceRecords = Some [''1.2.3.4''],
          TTL = Some 300, Type = ''A''\<rparr>])
     example_hw_config ((hw_init ''i-1'')\<lparr>hw_dns_str := ''web1''\<rparr>))
   = [ListCall (Some ''Z1'') ''web1.example.com'' ''A'' ''1'',
      ChangeCall (Some ''Z1'')
        (delete_batch \<lparr>Name = ''web1.example.com.'', ResourceRecords = Some [''1.2.3.4''],
            TTL = Some 300, Type = ''A''\<rparr> [''1.2.3.4''] 300)]"
proof -
  let ?rd = "\<lparr>Name = ''autodns-web1.example.com.'', ResourceRecords = Some [''1.2.3.4''],
        TTL = Some 300, Type = ''A''\<rparr>"
  let ?hrd = "\<lparr>Name = ''web1.example.com.'', ResourceRecords = Some [''1.2.3.4''],
        TTL = Some 300, Type = ''A''\<rparr>"
  let ?i = "\<lparr>State_Name = ''terminated'', Tags = None, PublicIpAddress = None\<rparr>"
  let ?self = "(init ''i-1'')\<lparr>dns_str := ''web1''\<rparr>"
  let ?hself = "(hw_init ''i-1'')\<lparr>hw_dns_str := ''web1''\<rparr>"
  have n: "record_name example_config ?self = ''autodns-web1.example.com''"
    by (simp add: record_name_def example_config_def init_def)
  have hn: "hw_record_name example_hw_config ?hself = ''web1.example.com''"
    by (simp add: hw_record_name_def example_hw_config_def hw_init_def)
  have h1: "list_resource_record_sets (example_env ?i [?rd]) (Some (ROUTE53_ZONE_ID example_config))
              (record_name example_config ?self) ''A'' ''1'' = Inr (?rd # [])"
    by (simp add: example_env_def)
  have h2: "Name ?rd = record_name example_config ?self @ ''.''"
    unfolding n by simp
  have h3: "ResourceRecords ?rd = Some (''1.2.3.4'' # [])" and h4: "TTL ?rd = Some 300"
    by simp_all
  have h5: "list_resource_record_sets (example_env ?i [?hrd]) (hw_ROUTE53_ZONE_ID example_hw_config)
              (hw_record_name example_hw_config ?hself) ''A'' ''1'' = Inr (?hrd # [])"
    by (simp add: example_env_def)
  have h6: "Name ?hrd = hw_record_name example_hw_config ?hself @ ''.''"
    unfolding hn by simp
  have h7: "ResourceRecords ?hrd = Some (''1.2.3.4'' # [])" and h8: "TTL ?hrd = Some 300"
    by simp_all
  have k: "ROUTE53_ZONE_ID example_config = ''Z1''"
    "hw_ROUTE53_ZONE_ID example_hw_config = Some ''Z1''"
    by (simp_all add: example_config_def example_hw_config_def)
  show ?thesis
    using delete_submits_first_value [OF h1 h2 h3 h4 h5 h6 h7 h8] unfolding n hn k .
qed

text \<open>
  A terminated instance tagged \<open>dns=web1\<close> whose record set holds two values: the
  \<open>DELETE\<close> submitted carries the first value only, not the values the query returned.
\<close>

theorem delete_submits_first_value_counterexample:
  "snd (set_dns
     (example_env \<lparr>State_Name = ''terminated'', Tags = Some [\<lparr>Key = ''dns'', Value = ''web1''\<rparr>],
        PublicIpAddress = None\<rparr>
        [\<lparr>Name = ''autodns-web1.example.com.'',
          ResourceRecords = Some [''1.2.3.4'', ''5.6.7.8''], TTL = Some 300, Type = ''A''\<rparr>])
     example_config (init ''i-1''))
   = [ListCall (Some ''Z1'') ''autodns-web1.example.com'' ''A'' ''1'',
      ChangeCall (Some ''Z1'')
        \<lparr>Comment = None, Changes = [\<lparr>Action = ''DELETE'',
           ResourceRecordSet = \<lparr>Name = ''autodns-web1.example.com.'',
             ResourceRecords = Some [''1.2.3.4''], TTL = Some 300, Type = ''A''\<rparr>\<rparr>]\<rparr>]"
  by code_simp

subsection \<open>C8: a stopped instance\<close>

text \<open>
  C8. For every instance in state \<open>stopped\<close> with a non-blank DNS Name Tag, \<open>set_dns\<close>
  of a new mapper issues exactly one call, an \<open>UPSERT\<close> for the record name whose
  single resource value is \<open>127.0.0.1\<close>, with type \<open>A\<close> and TTL 300; this holds in
  both programs.
\<close>

theorem set_dns_stopped:
  assumes "describe_instances e [iid] = Inr (r # rs)"
    and "Instances r = i # insts"
    and "State_Name i = ''stopped''"
    and "next_dns_tag (get_Tags i) \<noteq> ''''"
  shows "snd (set_dns e cfg (init iid)) =
           [ChangeCall (Some (ROUTE53_ZONE_ID cfg))
              (upsert_batch iid
                 (''autodns-'' @ next_dns_tag (get_Tags i) @ ''.'' @ DOMAIN_NAME cfg)
                 ''127.0.0.1'')]
       \<and> snd (hw_set_dns e hcfg (hw_init iid)) =
           [ChangeCall (hw_ROUTE53_ZONE_ID hcfg)
              (upsert_batch iid
                 (next_dns_tag (get_Tags i) @ ''.'' @ format_str (hw_DOMAIN_NAME hcfg))
                 ''127.0.0.1'')]"
proof -
  from assms(4) obtain tags where t: "Tags i = Some tags"
    by (cases "Tags i") auto
  have d: "describe_instances e [instance_id (init iid)] = Inr (r # rs)"
    using assms(1) by (simp add: init_def)
  have hd: "describe_instances e [hw_instance_id (hw_init iid)] = Inr (r # rs)"
    using assms(1) by (simp add: hw_init_def)
  have a: "snd (set_dns e cfg (init iid)) =
           [ChangeCall (Some (ROUTE53_ZONE_ID cfg))
              (upsert_batch iid
                 (''autodns-'' @ next_dns_tag (get_Tags i) @ ''.'' @ DOMAIN_NAME cfg)
                 ''127.0.0.1'')]"
    using assms(3,4) t
    by (subst set_dns_described [OF d assms(2) t])
       (simp add: create_route53_record_set_eq record_name_def init_def)
  have h: "snd (hw_set_dns e hcfg (hw_init iid)) =
           [ChangeCall (hw_ROUTE53_ZONE_ID hcfg)
              (upsert_batch iid
                 (next_dns_tag (get_Tags i) @ ''.'' @ format_str (hw_DOMAIN_NAME hcfg))
                 ''127.0.0.1'')]"
    using assms(3)
    by (subst hw_set_dns_described [OF hd assms(2)])
       (simp add: hw_create_route53_record_set_eq hw_record_name_def hw_init_def
          del: get_Tags.simps)
  from a h show ?thesis by (rule conjI)
qed

text \<open>Scenario B: a stopped instance tagged \<open>dns=Web1\<close> followed by a space.\<close>

theorem set_dns_stopped_witness:
  "snd (set_dns
     (example_env \<lparr>State_Name = ''stopped'', Tags = Some [\<lparr>Key = ''dns'', Value = ''Web1 ''\<rparr>],
        PublicIpAddress = None\<rparr> [])
     example_config (init ''i-1''))
   = [ChangeCall (Some ''Z1'') (upsert_batch ''i-1'' ''autodns-web1.example.com'' ''127.0.0.1'')]
   \<and> snd (hw_set_dns
     (example_env \<lparr>State_Name = ''stopped'', Tags = Some [\<lparr>Key = ''dns'', Value = ''Web1 ''\<rparr>],
        PublicIpAddress = None\<rparr> [])
     example_hw_config (hw_init ''i-1''))
   = [ChangeCall (Some ''Z1'') (upsert_batch ''i-1'' ''web1.example.com'' ''127.0.0.1'')]"
proof -
  let ?i = "\<lparr>State_Name = ''stopped'', Tags = Some [\<lparr>Key = ''dns'', Value = ''Web1 ''\<rparr>],
        PublicIpAddress = None\<rparr>"
  have h1: "describe_instances (example_env ?i []) [''i-1''] = Inr (\<lparr>Instances = [?i]\<rparr> # [])"
    by (simp add: example_env_def)
  have h2: "Instances \<lparr>Instances = [?i]\<rparr> = ?i # []"
    by simp
  have h3: "State_Name ?i = ''stopped''"
    by simp
  have g: "next_dns_tag (get_Tags ?i) = ''web1''"
    by code_simp
  have h4: "next_dns_tag (get_Tags ?i) \<noteq> ''''"
    unfolding g by simp
  have k: "ROUTE53_ZONE_ID example_config = ''Z1''" "DOMAIN_NAME example_config = ''example.com''"
    "hw_ROUTE53_ZONE_ID example_hw_config = Some ''Z1''"
    "hw_DOMAIN_NAME example_hw_config = Some ''example.com''"
    by (simp_all add: example_config_def example_hw_config_def)
  show ?thesis
    using set_dns_stopped [OF h1 h2 h3 h4, of example_config example_hw_config]
    unfolding g k by simp
qed

subsection \<open>C9: a tag set without the key\<close>

text \<open>
  C9 at an input where \<open>hello_world/app.py\<close> departs from it. The instance is
  running, has the public address \<open>1.2.3.4\<close> and the one tag \<open>Name=web\<close>, so no key
  equals \<open>dns\<close>. The extraction yields the empty string, and \<open>set_dns\<close> goes on to
  submit an \<open>UPSERT\<close> for the record name \<open>.example.com\<close>: the invocation is not a no-op.
  \<open>auto_dns_mapping/app.py\<close> returns before any call at this input.
\<close>

theorem hw_set_dns_without_dns_tag:
  "next_dns_tag [\<lparr>Key = ''Name'', Value = ''web''\<rparr>] = ''''
   \<and> hw_set_dns
     (example_env \<lparr>State_Name = ''running'', Tags = Some [\<lparr>Key = ''Name'', Value = ''web''\<rparr>],
        PublicIpAddress = Some ''1.2.3.4''\<rparr> [])
     example_hw_config (hw_init ''i-1'')
   = (True, [ChangeCall (Some ''Z1'') (upsert_batch ''i-1'' ''.example.com'' ''1.2.3.4'')])"
  by code_simp

subsection \<open>C10: several matching tags\<close>

text \<open>
  C10. If the tag \<open>t\<close> has a stripped, lower-cased key equal to \<open>dns\<close> and no tag before
  it in the list has, then the DNS Name Tag is the stripped, lower-cased value of \<open>t\<close>,
  whatever tags follow it.
\<close>

theorem next_dns_tag_first:
  assumes "\<forall>u \<in> set before. lower (strip (Key u)) \<noteq> ''dns''"
    and "lower (strip (Key t)) = ''dns''"
  shows "next_dns_tag (before @ t # after) = lower (strip (Value t))"
  using assms by (induction before) simp_all

text \<open>Three tags, of which the second and the third have the key.\<close>

theorem next_dns_tag_first_witness:
  "next_dns_tag ([\<lparr>Key = ''Name'', Value = ''web''\<rparr>] @ \<lparr>Key = '' DNS '', Value = '' Web1 ''\<rparr>
     # [\<lparr>Key = ''dns'', Value = ''other''\<rparr>]) = ''web1''"
proof -
  have h1: "\<forall>u \<in> set [\<lparr>Key = ''Name'', Value = ''web''\<rparr>]. lower (strip (Key u)) \<noteq> ''dns''"
    by code_simp
  have h2: "lower (strip (Key \<lparr>Key = '' DNS '', Value = '' Web1 ''\<rparr>)) = ''dns''"
    by code_simp
  have v: "lower (strip (Value \<lparr>Key = '' DNS '', Value = '' Web1 ''\<rparr>)) = ''web1''"
    by code_simp
  show ?thesis
    using next_dns_tag_first [OF h1 h2, of "[\<lparr>Key = ''dns'', Value = ''other''\<rparr>]"]
    unfolding v .
qed

end
